theory Spec2Isabelle
  imports Main "HOL-Library.AList"
begin

section \<open>JavaScript values and objects\<close>

text \<open>
  The server is TypeScript running on Express: at run time every request body, every
  stored account, news item and project is a plain JavaScript object, and the handlers
  build new objects with the spread syntax. The TypeScript types are erased, and the
  registration endpoint validates nothing, so the model keeps objects dynamic.

  A value read from an object is \<open>None\<close> when the property is \<open>undefined\<close> or missing
  (the two are not told apart: reading either gives \<open>undefined\<close>, and JSON serialisation
  omits both). Strings are lists of characters, numbers are the integers (identifiers and
  counters are integral), a \<open>Date\<close> is its time stamp.
\<close>

datatype jsval =
    JNull
  | JBool bool
  | JNum int
  | JStr string
  | JDate nat
  | JArr "jsval list"
  | JObj "(string \<times> jsval) list"

type_synonym obj = "string \<rightharpoonup> jsval"

text \<open>Truthiness, as used by \<open>!x\<close>, \<open>x || y\<close> and \<open>if (x)\<close>.\<close>

fun truthy :: "jsval option \<Rightarrow> bool" where
  "truthy None = False"
| "truthy (Some JNull) = False"
| "truthy (Some (JBool b)) = b"
| "truthy (Some (JNum n)) = (n \<noteq> 0)"
| "truthy (Some (JStr s)) = (s \<noteq> [])"
| "truthy (Some (JDate t)) = True"
| "truthy (Some (JArr xs)) = True"
| "truthy (Some (JObj kvs)) = True"

text \<open>\<open>x || d\<close> for a default \<open>d\<close> that is a value.\<close>

fun js_or :: "jsval option \<Rightarrow> jsval \<Rightarrow> jsval" where
  "js_or None d = d"
| "js_or (Some v) d = (if truthy (Some v) then v else d)"

text \<open>
  Strict equality \<open>===\<close>. Primitives compare by value. Arrays, objects and dates compare
  by reference; the model takes two such operands to be different references (a parsed
  request body is always a fresh object), so they compare unequal. The values the server
  compares are user names and identifiers, which are strings and numbers.
\<close>

fun strict_eq :: "jsval option \<Rightarrow> jsval option \<Rightarrow> bool" where
  "strict_eq None None = True"
| "strict_eq (Some JNull) (Some JNull) = True"
| "strict_eq (Some (JBool a)) (Some (JBool b)) = (a = b)"
| "strict_eq (Some (JNum a)) (Some (JNum b)) = (a = b)"
| "strict_eq (Some (JStr a)) (Some (JStr b)) = (a = b)"
| "strict_eq _ _ = False"

section \<open>The in-memory store (\<open>MemStorage\<close>)\<close>

text \<open>
  The exported \<open>storage\<close> is \<open>new MemStorage()\<close>. Its three \<open>Map\<close>s keep insertion
  order: \<open>Map.set\<close> replaces the value of a present key in place and appends a new key,
  which is \<open>AList.update\<close>; \<open>Map.get\<close> is \<open>map_of\<close>; \<open>Map.delete\<close> is \<open>AList.delete\<close>.
  The counters are JavaScript numbers that only count up from 1.
\<close>

record mem_storage =
  users :: "(int \<times> obj) list"
  newsItems :: "(int \<times> obj) list"
  projectItems :: "(int \<times> obj) list"
  userId :: int
  newsId :: int
  projectId :: int

definition MemStorage :: mem_storage where
  "MemStorage = \<lparr>users = [], newsItems = [], projectItems = [],
     userId = 1, newsId = 1, projectId = 1\<rparr>"

definition getUser :: "mem_storage \<Rightarrow> int \<Rightarrow> obj option" where
  "getUser s ident = map_of (users s) ident"

definition getUserByUsername :: "mem_storage \<Rightarrow> jsval option \<Rightarrow> obj option" where
  "getUserByUsername s username =
     find (\<lambda>u. strict_eq (u ''username'') username) (map snd (users s))"

definition getAllUsers :: "mem_storage \<Rightarrow> obj list" where
  "getAllUsers s = map snd (users s)"

text \<open>
  \<open>createUser\<close>: \<open>const { role, ...userData } = insertUser\<close>, then
  \<open>{ ...userData, id, avatar: null, bio: null, role: role || "user", createdAt }\<close>.
  The time stamp \<open>new Date()\<close> is an argument.
\<close>

definition createUser :: "nat \<Rightarrow> obj \<Rightarrow> mem_storage \<Rightarrow> mem_storage \<times> obj" where
  "createUser createdAt insertUser s =
     (let ident = userId s;
          role = insertUser ''role'';
          userData = insertUser |` (- {''role''});
          account = userData(''id'' \<mapsto> JNum ident, ''avatar'' \<mapsto> JNull, ''bio'' \<mapsto> JNull,
                      ''role'' \<mapsto> js_or role (JStr ''user''), ''createdAt'' \<mapsto> JDate createdAt)
      in (s\<lparr>users := AList.update ident account (users s), userId := ident + 1\<rparr>, account))"

text \<open>
  \<open>updateUserProfile\<close>: an unknown id gives \<open>undefined\<close>; otherwise the stored object is
  replaced by \<open>{ ...user, ...profile }\<close>.
\<close>

definition updateUserProfile :: "int \<Rightarrow> obj \<Rightarrow> mem_storage \<Rightarrow> mem_storage \<times> obj option" where
  "updateUserProfile ident profile s =
     (case map_of (users s) ident of
        None \<Rightarrow> (s, None)
      | Some account \<Rightarrow>
          (let updatedUser = account ++ profile
           in (s\<lparr>users := AList.update ident updatedUser (users s)\<rparr>, Some updatedUser)))"

definition getAllNews :: "mem_storage \<Rightarrow> obj list" where
  "getAllNews s = map snd (newsItems s)"

definition getNewsById :: "mem_storage \<Rightarrow> int \<Rightarrow> obj option" where
  "getNewsById s ident = map_of (newsItems s) ident"

text \<open>
  \<open>createNews\<close>: \<open>{ ...newsItem, id, files: newsItem.files || [], createdAt, updatedAt }\<close>.
  Both dates are read in the same call and are modelled as one instant.
\<close>

definition createNews :: "nat \<Rightarrow> obj \<Rightarrow> mem_storage \<Rightarrow> mem_storage \<times> obj" where
  "createNews t newsItem s =
     (let ident = newsId s;
          item = newsItem(''id'' \<mapsto> JNum ident, ''files'' \<mapsto> js_or (newsItem ''files'') (JArr []),
                   ''createdAt'' \<mapsto> JDate t, ''updatedAt'' \<mapsto> JDate t)
      in (s\<lparr>newsItems := AList.update ident item (newsItems s), newsId := ident + 1\<rparr>, item))"

definition updateNews :: "nat \<Rightarrow> int \<Rightarrow> obj \<Rightarrow> mem_storage \<Rightarrow> mem_storage \<times> obj option" where
  "updateNews t ident newsUpdate s =
     (case map_of (newsItems s) ident of
        None \<Rightarrow> (s, None)
      | Some item \<Rightarrow>
          (let updatedNews = (item ++ newsUpdate)(''updatedAt'' \<mapsto> JDate t)
           in (s\<lparr>newsItems := AList.update ident updatedNews (newsItems s)\<rparr>, Some updatedNews)))"

text \<open>\<open>Map.delete\<close> returns whether the key was present.\<close>

definition deleteNews :: "int \<Rightarrow> mem_storage \<Rightarrow> mem_storage \<times> bool" where
  "deleteNews ident s =
     (s\<lparr>newsItems := AList.delete ident (newsItems s)\<rparr>, map_of (newsItems s) ident \<noteq> None)"

definition getAllProjects :: "mem_storage \<Rightarrow> obj list" where
  "getAllProjects s = map snd (projectItems s)"

definition getProjectById :: "mem_storage \<Rightarrow> int \<Rightarrow> obj option" where
  "getProjectById s ident = map_of (projectItems s) ident"

text \<open>
  \<open>createProject\<close>: \<open>{ ...projectItem, id, createdAt, updatedAt,
  imageUrl: projectItem.imageUrl || "", url: projectItem.url || "",
  files: projectItem.files || [] }\<close>.
\<close>

definition createProject :: "nat \<Rightarrow> obj \<Rightarrow> mem_storage \<Rightarrow> mem_storage \<times> obj" where
  "createProject t projectItem s =
     (let ident = projectId s;
          project = projectItem(''id'' \<mapsto> JNum ident, ''createdAt'' \<mapsto> JDate t,
                      ''updatedAt'' \<mapsto> JDate t,
                      ''imageUrl'' \<mapsto> js_or (projectItem ''imageUrl'') (JStr []),
                      ''url'' \<mapsto> js_or (projectItem ''url'') (JStr []),
                      ''files'' \<mapsto> js_or (projectItem ''files'') (JArr []))
      in (s\<lparr>projectItems := AList.update ident project (projectItems s),
             projectId := ident + 1\<rparr>, project))"

definition updateProject :: "nat \<Rightarrow> int \<Rightarrow> obj \<Rightarrow> mem_storage \<Rightarrow> mem_storage \<times> obj option" where
  "updateProject t ident projectUpdate s =
     (case map_of (projectItems s) ident of
        None \<Rightarrow> (s, None)
      | Some project \<Rightarrow>
          (let updatedProject = (project ++ projectUpdate)(''updatedAt'' \<mapsto> JDate t)
           in (s\<lparr>projectItems := AList.update ident updatedProject (projectItems s)\<rparr>,
               Some updatedProject)))"

definition deleteProject :: "int \<Rightarrow> mem_storage \<Rightarrow> mem_storage \<times> bool" where
  "deleteProject ident s =
     (s\<lparr>projectItems := AList.delete ident (projectItems s)\<rparr>,
      map_of (projectItems s) ident \<noteq> None)"

section \<open>Requests, responses and the environment\<close>

text \<open>
  The messages of the JSON error bodies are Russian string literals in the source; each
  distinct literal is one constructor (the comment gives its meaning).
\<close>

datatype message =
    AuthRequired            \<comment> \<open>401 of \<open>isAuthenticated\<close> and \<open>isAdmin\<close>: authorisation is needed\<close>
  | AdminRequired           \<comment> \<open>403 of \<open>isAdmin\<close>: administrator rights are needed\<close>
  | ValidationFailed        \<comment> \<open>400 of \<open>validateRequest\<close>: data validation error\<close>
  | UserNotFound            \<comment> \<open>404 of the profile update: user not found\<close>
  | UsernameTaken           \<comment> \<open>400 of the registration: the user name is already taken\<close>
  | RegistrationFailed      \<comment> \<open>500 of the registration: registration error\<close>
  | BadCredentials          \<comment> \<open>401 of the login: wrong user name or password\<close>
  | NotAuthorized           \<comment> \<open>401 of \<open>GET /api/user\<close>: not authorised\<close>
  | BadNewsId               \<comment> \<open>400: wrong news id\<close>
  | NewsNotFound            \<comment> \<open>404: news item not found\<close>
  | NewsEditForbidden       \<comment> \<open>403: no right to edit this news item\<close>
  | NewsDeleteForbidden     \<comment> \<open>403: no right to delete this news item\<close>
  | BadProjectId            \<comment> \<open>400: wrong project id\<close>
  | ProjectNotFound         \<comment> \<open>404: project not found\<close>
  | ProjectEditForbidden    \<comment> \<open>403: no right to edit this project\<close>
  | ProjectDeleteForbidden  \<comment> \<open>403: no right to delete this project\<close>
  | ProfileUpdateFailed     \<comment> \<open>500: profile update error\<close>
  | NewsCreateFailed        \<comment> \<open>500: news creation error\<close>
  | NewsUpdateFailed        \<comment> \<open>500: news update error\<close>
  | NewsDeleteFailed        \<comment> \<open>500: news deletion error\<close>
  | ProjectCreateFailed     \<comment> \<open>500: project creation error\<close>
  | ProjectUpdateFailed     \<comment> \<open>500: project update error\<close>
  | ProjectDeleteFailed     \<comment> \<open>500: project deletion error\<close>

text \<open>
  What \<open>res.json\<close> or \<open>res.send\<close> is given: \<open>{ message }\<close>, \<open>{ message, errors }\<close> (the
  errors are the validator's issue list), an object, an array of objects, or nothing.
\<close>

datatype payload =
    Message message
  | MessageErrors message
  | Json obj
  | JsonList "obj list"
  | NoBody

text \<open>
  A handler either sends a response (status and payload) or hands an error to the
  framework with \<open>next(err)\<close>.
\<close>

datatype outcome =
    Respond nat payload
  | NextError

text \<open>
  A request as the handlers read it: \<open>req.user\<close> (set by the session layer, \<open>undefined\<close>
  for an anonymous caller; \<open>req.isAuthenticated()\<close> is true exactly when it is set),
  \<open>req.body\<close> (a JSON object) and \<open>parseInt(req.params.id)\<close> (\<open>None\<close> for \<open>NaN\<close>).
\<close>

record request =
  req_user :: "obj option"
  req_body :: obj
  req_id :: "int option"

text \<open>
  What the handlers take from outside the repository: the clock, \<open>bcryptjs\<close> (hashing
  with a fresh salt and comparing; \<open>None\<close> when the call rejects), whether \<open>req.login\<close>
  establishes the session, and the two insert schemas that \<open>drizzle-zod\<close> derives from
  the table declarations. Every theorem below holds for all of them.
\<close>

record env =
  clock :: nat
  bcrypt_hash :: "jsval option \<Rightarrow> string option"
  bcrypt_compare :: "jsval option \<Rightarrow> jsval option \<Rightarrow> bool option"
  session_login :: "obj \<Rightarrow> bool"
  insertNewsSchema :: "obj \<Rightarrow> bool"
  insertProjectSchema :: "obj \<Rightarrow> bool"

definition hashPassword :: "env \<Rightarrow> jsval option \<Rightarrow> string option" where
  "hashPassword e password = bcrypt_hash e password"

definition comparePasswords :: "env \<Rightarrow> jsval option \<Rightarrow> jsval option \<Rightarrow> bool option" where
  "comparePasswords e supplied stored = bcrypt_compare e supplied stored"

section \<open>Middleware\<close>

text \<open>A middleware answers itself (\<open>Some\<close>) or calls \<open>next()\<close> (\<open>None\<close>).\<close>

definition isAuthenticated :: "request \<Rightarrow> outcome option" where
  "isAuthenticated req =
     (if req_user req = None then Some (Respond 401 (Message AuthRequired)) else None)"

definition isAdmin :: "request \<Rightarrow> outcome option" where
  "isAdmin req =
     (case req_user req of
        None \<Rightarrow> Some (Respond 401 (Message AuthRequired))
      | Some account \<Rightarrow>
          (if \<not> strict_eq (account ''role'') (Some (JStr ''admin''))
           then Some (Respond 403 (Message AdminRequired))
           else None))"

definition validateRequest :: "(obj \<Rightarrow> bool) \<Rightarrow> request \<Rightarrow> outcome option" where
  "validateRequest schema req =
     (if schema (req_body req) then None
      else Some (Respond 400 (MessageErrors ValidationFailed)))"

text \<open>
  \<open>updateUserProfileSchema\<close>: \<open>z.object\<close> of three optional strings, the user name of
  3 to 50 characters and the biography of at most 500. Unknown keys do not fail the
  parse.
\<close>

fun zod_string :: "nat \<Rightarrow> nat option \<Rightarrow> jsval option \<Rightarrow> bool" where
  "zod_string lo hi None = True"
| "zod_string lo hi (Some (JStr s)) =
     (lo \<le> length s \<and> (case hi of None \<Rightarrow> True | Some h \<Rightarrow> length s \<le> h))"
| "zod_string lo hi (Some _) = False"

definition updateUserProfileSchema :: "obj \<Rightarrow> bool" where
  "updateUserProfileSchema b =
     (zod_string 3 (Some 50) (b ''username'') \<and> zod_string 0 None (b ''avatar'')
      \<and> zod_string 0 (Some 500) (b ''bio''))"

section \<open>Routes\<close>

text \<open>
  Each route is its middleware chain followed by its handler. A handler's \<open>catch\<close>
  branch answers 500; with the in-memory store the only exceptions are the \<open>TypeError\<close>
  of \<open>req.user!.id\<close> on a missing user and a rejected \<open>bcryptjs\<close> call.
\<close>

definition safeUser :: "obj \<Rightarrow> obj" where
  \<comment> \<open>\<open>const { password, ...safeUser } = user\<close>, or the copy with \<open>delete safeUser.password\<close>\<close>
  "safeUser account = account |` (- {''password''})"

definition get_users :: "mem_storage \<Rightarrow> request \<Rightarrow> mem_storage \<times> outcome" where
  \<comment> \<open>\<open>GET /api/users\<close>\<close>
  "get_users s req =
     (case isAdmin req of
        Some denied \<Rightarrow> (s, denied)
      | None \<Rightarrow> (s, Respond 200 (JsonList (map safeUser (getAllUsers s)))))"

text \<open>
  \<open>PUT /api/users/profile\<close>. The handler passes \<open>req.body\<close> itself to the store, not the
  parsed copy. The keys of the \<open>Map\<close> are numbers, so an id that is not a number is an
  unknown key.
\<close>

definition put_users_profile_handler :: "mem_storage \<Rightarrow> request \<Rightarrow> mem_storage \<times> outcome" where
  "put_users_profile_handler s req =
     (case req_user req of
        None \<Rightarrow> (s, Respond 500 (Message ProfileUpdateFailed))
      | Some account \<Rightarrow>
          (case account ''id'' of
             Some (JNum ident) \<Rightarrow>
               (case updateUserProfile ident (req_body req) s of
                  (s', None) \<Rightarrow> (s', Respond 404 (Message UserNotFound))
                | (s', Some updatedUser) \<Rightarrow> (s', Respond 200 (Json (safeUser updatedUser))))
           | _ \<Rightarrow> (s, Respond 404 (Message UserNotFound))))"

definition put_users_profile :: "mem_storage \<Rightarrow> request \<Rightarrow> mem_storage \<times> outcome" where
  "put_users_profile s req =
     (case isAuthenticated req of
        Some denied \<Rightarrow> (s, denied)
      | None \<Rightarrow>
          (case validateRequest updateUserProfileSchema req of
             Some denied \<Rightarrow> (s, denied)
           | None \<Rightarrow> put_users_profile_handler s req))"

text \<open>\<open>POST /api/news\<close>: \<open>{ ...req.body, userId: req.user!.id }\<close> is given to the store.\<close>

definition post_news_handler :: "env \<Rightarrow> mem_storage \<Rightarrow> request \<Rightarrow> mem_storage \<times> outcome" where
  "post_news_handler e s req =
     (case req_user req of
        None \<Rightarrow> (s, Respond 500 (Message NewsCreateFailed))
      | Some account \<Rightarrow>
          (let newsData = (req_body req)(''userId'' := account ''id'');
               (s', createdNews) = createNews (clock e) newsData s
           in (s', Respond 201 (Json createdNews))))"

definition post_news :: "env \<Rightarrow> mem_storage \<Rightarrow> request \<Rightarrow> mem_storage \<times> outcome" where
  "post_news e s req =
     (case isAdmin req of
        Some denied \<Rightarrow> (s, denied)
      | None \<Rightarrow>
          (case validateRequest (insertNewsSchema e) req of
             Some denied \<Rightarrow> (s, denied)
           | None \<Rightarrow> post_news_handler e s req))"

text \<open>
  \<open>PUT /api/news/:id\<close>: \<open>const isAdmin = req.user?.role === "admin"\<close>, then
  \<open>if (!isAdmin && newsItem.userId !== req.user!.id)\<close> answers 403.
\<close>

definition put_news_handler :: "env \<Rightarrow> mem_storage \<Rightarrow> request \<Rightarrow> mem_storage \<times> outcome" where
  "put_news_handler e s req =
     (case req_id req of
        None \<Rightarrow> (s, Respond 400 (Message BadNewsId))
      | Some ident \<Rightarrow>
          (case getNewsById s ident of
             None \<Rightarrow> (s, Respond 404 (Message NewsNotFound))
           | Some newsItem \<Rightarrow>
               (case req_user req of
                  None \<Rightarrow> (s, Respond 500 (Message NewsUpdateFailed))
                | Some account \<Rightarrow>
                    (if \<not> strict_eq (account ''role'') (Some (JStr ''admin''))
                        \<and> \<not> strict_eq (newsItem ''userId'') (account ''id'')
                     then (s, Respond 403 (Message NewsEditForbidden))
                     else (case updateNews (clock e) ident (req_body req) s of
                             (s', None) \<Rightarrow> (s', Respond 200 NoBody)
                           | (s', Some updatedNews) \<Rightarrow> (s', Respond 200 (Json updatedNews)))))))"

definition put_news :: "env \<Rightarrow> mem_storage \<Rightarrow> request \<Rightarrow> mem_storage \<times> outcome" where
  "put_news e s req =
     (case isAuthenticated req of
        Some denied \<Rightarrow> (s, denied)
      | None \<Rightarrow> put_news_handler e s req)"

definition delete_news_handler :: "mem_storage \<Rightarrow> request \<Rightarrow> mem_storage \<times> outcome" where
  "delete_news_handler s req =
     (case req_id req of
        None \<Rightarrow> (s, Respond 400 (Message BadNewsId))
      | Some ident \<Rightarrow>
          (case getNewsById s ident of
             None \<Rightarrow> (s, Respond 404 (Message NewsNotFound))
           | Some newsItem \<Rightarrow>
               (case req_user req of
                  None \<Rightarrow> (s, Respond 500 (Message NewsDeleteFailed))
                | Some account \<Rightarrow>
                    (if \<not> strict_eq (account ''role'') (Some (JStr ''admin''))
                        \<and> \<not> strict_eq (newsItem ''userId'') (account ''id'')
                     then (s, Respond 403 (Message NewsDeleteForbidden))
                     else (case deleteNews ident s of
                             (s', True) \<Rightarrow> (s', Respond 204 NoBody)
                           | (s', False) \<Rightarrow> (s', Respond 404 (Message NewsNotFound)))))))"

definition delete_news :: "mem_storage \<Rightarrow> request \<Rightarrow> mem_storage \<times> outcome" where
  "delete_news s req =
     (case isAuthenticated req of
        Some denied \<Rightarrow> (s, denied)
      | None \<Rightarrow> delete_news_handler s req)"

text \<open>The project routes repeat the news routes on the project map.\<close>

definition post_projects_handler :: "env \<Rightarrow> mem_storage \<Rightarrow> request \<Rightarrow> mem_storage \<times> outcome" where
  "post_projects_handler e s req =
     (case req_user req of
        None \<Rightarrow> (s, Respond 500 (Message ProjectCreateFailed))
      | Some account \<Rightarrow>
          (let projectData = (req_body req)(''userId'' := account ''id'');
               (s', createdProject) = createProject (clock e) projectData s
           in (s', Respond 201 (Json createdProject))))"

definition post_projects :: "env \<Rightarrow> mem_storage \<Rightarrow> request \<Rightarrow> mem_storage \<times> outcome" where
  "post_projects e s req =
     (case isAdmin req of
        Some denied \<Rightarrow> (s, denied)
      | None \<Rightarrow>
          (case validateRequest (insertProjectSchema e) req of
             Some denied \<Rightarrow> (s, denied)
           | None \<Rightarrow> post_projects_handler e s req))"

definition put_projects_handler :: "env \<Rightarrow> mem_storage \<Rightarrow> request \<Rightarrow> mem_storage \<times> outcome" where
  "put_projects_handler e s req =
     (case req_id req of
        None \<Rightarrow> (s, Respond 400 (Message BadProjectId))
      | Some ident \<Rightarrow>
          (case getProjectById s ident of
             None \<Rightarrow> (s, Respond 404 (Message ProjectNotFound))
           | Some project \<Rightarrow>
               (case req_user req of
                  None \<Rightarrow> (s, Respond 500 (Message ProjectUpdateFailed))
                | Some account \<Rightarrow>
                    (if \<not> strict_eq (account ''role'') (Some (JStr ''admin''))
                        \<and> \<not> strict_eq (project ''userId'') (account ''id'')
                     then (s, Respond 403 (Message ProjectEditForbidden))
                     else (case updateProject (clock e) ident (req_body req) s of
                             (s', None) \<Rightarrow> (s', Respond 200 NoBody)
                           | (s', Some updatedProject) \<Rightarrow>
                               (s', Respond 200 (Json updatedProject)))))))"

definition put_projects :: "env \<Rightarrow> mem_storage \<Rightarrow> request \<Rightarrow> mem_storage \<times> outcome" where
  "put_projects e s req =
     (case isAuthenticated req of
        Some denied \<Rightarrow> (s, denied)
      | None \<Rightarrow> put_projects_handler e s req)"

definition delete_projects_handler :: "mem_storage \<Rightarrow> request \<Rightarrow> mem_storage \<times> outcome" where
  "delete_projects_handler s req =
     (case req_id req of
        None \<Rightarrow> (s, Respond 400 (Message BadProjectId))
      | Some ident \<Rightarrow>
          (case getProjectById s ident of
             None \<Rightarrow> (s, Respond 404 (Message ProjectNotFound))
           | Some project \<Rightarrow>
               (case req_user req of
                  None \<Rightarrow> (s, Respond 500 (Message ProjectDeleteFailed))
                | Some account \<Rightarrow>
                    (if \<not> strict_eq (account ''role'') (Some (JStr ''admin''))
                        \<and> \<not> strict_eq (project ''userId'') (account ''id'')
                     then (s, Respond 403 (Message ProjectDeleteForbidden))
                     else (case deleteProject ident s of
                             (s', True) \<Rightarrow> (s', Respond 204 NoBody)
                           | (s', False) \<Rightarrow> (s', Respond 404 (Message ProjectNotFound)))))))"

definition delete_projects :: "mem_storage \<Rightarrow> request \<Rightarrow> mem_storage \<times> outcome" where
  "delete_projects s req =
     (case isAuthenticated req of
        Some denied \<Rightarrow> (s, denied)
      | None \<Rightarrow> delete_projects_handler s req)"

section \<open>Authentication (\<open>setupAuth\<close>)\<close>

text \<open>
  The verify function of the local strategy: \<open>done(null, false)\<close> for an unknown user
  name or a password that does not compare, \<open>done(null, user)\<close> otherwise, \<open>done(err)\<close>
  when a call throws.
\<close>

datatype verified = Done "obj option" | DoneError

definition LocalStrategy :: "env \<Rightarrow> mem_storage \<Rightarrow> jsval option \<Rightarrow> jsval option \<Rightarrow> verified" where
  "LocalStrategy e s username password =
     (case getUserByUsername s username of
        None \<Rightarrow> Done None
      | Some account \<Rightarrow>
          (case comparePasswords e password (account ''password'') of
             None \<Rightarrow> DoneError
           | Some False \<Rightarrow> Done None
           | Some True \<Rightarrow> Done (Some account)))"

text \<open>
  \<open>POST /api/register\<close>. There is no validation middleware: the body is used as it is,
  with the password replaced by its hash.
\<close>

definition post_register :: "env \<Rightarrow> mem_storage \<Rightarrow> request \<Rightarrow> mem_storage \<times> outcome" where
  "post_register e s req =
     (case getUserByUsername s (req_body req ''username'') of
        Some existingUser \<Rightarrow> (s, Respond 400 (Message UsernameTaken))
      | None \<Rightarrow>
          (case hashPassword e (req_body req ''password'') of
             None \<Rightarrow> (s, Respond 500 (Message RegistrationFailed))
           | Some digest \<Rightarrow>
               (let (s', account) =
                      createUser (clock e) ((req_body req)(''password'' \<mapsto> JStr digest)) s
                in if session_login e account
                   then (s', Respond 201 (Json (safeUser account)))
                   else (s', NextError))))"

text \<open>
  \<open>passport-local\<close> looks the credentials up in the request (\<open>username\<close> and
  \<open>password\<close>) and, when one of them is falsy, fails the authentication without calling
  the verify function (\<open>if (!username || !password) return this.fail(...)\<close>); a failed
  authentication reaches the route's callback as \<open>user = false\<close>, like \<open>done(null, false)\<close>.
\<close>

definition authenticate_local ::
  "env \<Rightarrow> mem_storage \<Rightarrow> jsval option \<Rightarrow> jsval option \<Rightarrow> verified" where
  "authenticate_local e s username password =
     (if truthy username \<and> truthy password then LocalStrategy e s username password
      else Done None)"

text \<open>
  \<open>POST /api/login\<close>: the callback given to \<open>passport.authenticate\<close>, applied to the
  outcome of the authentication for the credentials of the request.
\<close>

definition post_login :: "env \<Rightarrow> mem_storage \<Rightarrow> jsval option \<Rightarrow> jsval option \<Rightarrow> outcome" where
  "post_login e s username password =
     (case authenticate_local e s username password of
        DoneError \<Rightarrow> NextError
      | Done None \<Rightarrow> Respond 401 (Message BadCredentials)
      | Done (Some account) \<Rightarrow>
          (if session_login e account then Respond 200 (Json (safeUser account))
           else NextError))"

definition get_user :: "request \<Rightarrow> outcome" where
  \<comment> \<open>\<open>GET /api/user\<close>\<close>
  "get_user req =
     (case req_user req of
        None \<Rightarrow> Respond 401 (Message NotAuthorized)
      | Some account \<Rightarrow> Respond 200 (Json (safeUser account)))"

section \<open>Notions used by the properties\<close>

fun status :: "outcome \<Rightarrow> nat option" where
  "status (Respond code p) = Some code"
| "status NextError = None"

text \<open>Whether a response payload carries a \<open>password\<close> property.\<close>

fun has_password :: "outcome \<Rightarrow> bool" where
  "has_password (Respond code (Json account)) = (account ''password'' \<noteq> None)"
| "has_password (Respond code (JsonList accounts)) =
     list_ex (\<lambda>account. account ''password'' \<noteq> None) accounts"
| "has_password _ = False"

text \<open>The user names of the stored accounts, in the order of the store.\<close>

definition usernames :: "mem_storage \<Rightarrow> jsval option list" where
  "usernames s = map (\<lambda>account. account ''username'') (getAllUsers s)"

text \<open>Every key of the user map is below the counter.\<close>

definition ids_below :: "mem_storage \<Rightarrow> bool" where
  "ids_below s = list_all (\<lambda>k. k < userId s) (map fst (users s))"

text \<open>
  The stores the server can be in: the empty one, and what a route that writes leaves
  behind, for any request and environment.
\<close>

inductive reachable :: "mem_storage \<Rightarrow> bool" where
  initial: "reachable MemStorage"
| registered: "reachable s \<Longrightarrow> reachable (fst (post_register e s req))"
| profile_updated: "reachable s \<Longrightarrow> reachable (fst (put_users_profile s req))"
| news_created: "reachable s \<Longrightarrow> reachable (fst (post_news e s req))"
| news_updated: "reachable s \<Longrightarrow> reachable (fst (put_news e s req))"
| news_deleted: "reachable s \<Longrightarrow> reachable (fst (delete_news s req))"
| project_created: "reachable s \<Longrightarrow> reachable (fst (post_projects e s req))"
| project_updated: "reachable s \<Longrightarrow> reachable (fst (put_projects e s req))"
| project_deleted: "reachable s \<Longrightarrow> reachable (fst (delete_projects s req))"

section \<open>Example data\<close>

text \<open>
  Concrete inputs on which the theorems are instantiated. \<open>example_env\<close> is a stand-in
  for the outside world: a hash that prefixes the password, a comparison that undoes it,
  a session layer that always logs in and schemas that accept every body. Like
  \<open>bcryptjs\<close>, the hash and the comparison reject an argument that is not a string.
\<close>

definition example_env :: env where
  "example_env =
     \<lparr>clock = 7,
      bcrypt_hash = (\<lambda>p. case p of Some (JStr pw) \<Rightarrow> Some (''#'' @ pw) | _ \<Rightarrow> None),
      bcrypt_compare = (\<lambda>p h. case (p, h) of
          (Some (JStr pw), Some (JStr digest)) \<Rightarrow> Some (digest = ''#'' @ pw)
        | _ \<Rightarrow> None),
      session_login = (\<lambda>account. True),
      insertNewsSchema = (\<lambda>b. True),
      insertProjectSchema = (\<lambda>b. True)\<rparr>"

definition alice :: obj where
  "alice = [''username'' \<mapsto> JStr ''alice'', ''password'' \<mapsto> JStr ''#secret1'',
     ''id'' \<mapsto> JNum 1, ''avatar'' \<mapsto> JNull, ''bio'' \<mapsto> JNull,
     ''role'' \<mapsto> JStr ''admin'', ''createdAt'' \<mapsto> JDate 7]"

definition bob :: obj where
  "bob = [''username'' \<mapsto> JStr ''bob'', ''password'' \<mapsto> JStr ''#secret2'',
     ''id'' \<mapsto> JNum 2, ''avatar'' \<mapsto> JNull, ''bio'' \<mapsto> JNull,
     ''role'' \<mapsto> JStr ''user'', ''createdAt'' \<mapsto> JDate 7]"

definition carol :: obj where
  "carol = [''username'' \<mapsto> JStr ''carol'', ''password'' \<mapsto> JStr ''#secret3'',
     ''id'' \<mapsto> JNum 3, ''avatar'' \<mapsto> JNull, ''bio'' \<mapsto> JNull,
     ''role'' \<mapsto> JStr ''user'', ''createdAt'' \<mapsto> JDate 7]"

definition bobs_news :: obj where
  "bobs_news = [''title'' \<mapsto> JStr ''hello'', ''content'' \<mapsto> JStr ''text'',
     ''userId'' \<mapsto> JNum 2, ''id'' \<mapsto> JNum 1, ''files'' \<mapsto> JArr [],
     ''createdAt'' \<mapsto> JDate 7, ''updatedAt'' \<mapsto> JDate 7]"

definition bobs_project :: obj where
  "bobs_project = [''title'' \<mapsto> JStr ''site'', ''description'' \<mapsto> JStr ''text'',
     ''userId'' \<mapsto> JNum 2, ''id'' \<mapsto> JNum 1, ''createdAt'' \<mapsto> JDate 7,
     ''updatedAt'' \<mapsto> JDate 7, ''imageUrl'' \<mapsto> JStr [], ''url'' \<mapsto> JStr [],
     ''files'' \<mapsto> JArr []]"

definition example_store :: mem_storage where
  "example_store =
     \<lparr>users = [(1, alice), (2, bob), (3, carol)], newsItems = [(1, bobs_news)],
      projectItems = [(1, bobs_project)], userId = 4, newsId = 2, projectId = 2\<rparr>"

definition request_of :: "obj option \<Rightarrow> obj \<Rightarrow> int option \<Rightarrow> request" where
  "request_of account b ident = \<lparr>req_user = account, req_body = b, req_id = ident\<rparr>"

text \<open>Two registrations from the empty store, then a profile update by the second account.\<close>

definition register_alice :: request where
  "register_alice =
     request_of None [''username'' \<mapsto> JStr ''alice'', ''password'' \<mapsto> JStr ''secret1''] None"

definition register_bob :: request where
  "register_bob =
     request_of None [''username'' \<mapsto> JStr ''bob'', ''password'' \<mapsto> JStr ''secret2''] None"

definition two_accounts :: mem_storage where
  "two_accounts =
     fst (post_register example_env (fst (post_register example_env MemStorage register_alice))
            register_bob)"

definition rename_to_alice :: request where
  "rename_to_alice = request_of (getUser two_accounts 2) [''username'' \<mapsto> JStr ''alice''] None"

section \<open>Auxiliary facts\<close>

lemma strict_eq_str [simp]: "strict_eq x (Some (JStr a)) = (x = Some (JStr a))"
  by (cases "(x, Some (JStr a))" rule: strict_eq.cases) simp_all

lemma strict_eq_num [simp]: "strict_eq x (Some (JNum n)) = (x = Some (JNum n))"
  by (cases "(x, Some (JNum n))" rule: strict_eq.cases) simp_all

lemma update_fresh: "k \<notin> fst ` set al \<Longrightarrow> AList.update k v al = al @ [(k, v)]"
  by (induction al) auto

lemma update_present_keys:
  "map_of al k = Some v \<Longrightarrow> map fst (AList.update k w al) = map fst al"
  by (induction al) auto

lemma safeUser_no_password: "safeUser account ''password'' = None"
  by (simp add: safeUser_def)

lemma isAdmin_cases:
  "isAdmin req = None \<or> isAdmin req = Some (Respond 401 (Message AuthRequired))
   \<or> isAdmin req = Some (Respond 403 (Message AdminRequired))"
  by (simp add: isAdmin_def split: option.splits)

lemma isAuthenticated_cases:
  "isAuthenticated req = None \<or> isAuthenticated req = Some (Respond 401 (Message AuthRequired))"
  by (simp add: isAuthenticated_def)

lemma validateRequest_cases:
  "validateRequest schema req = None
   \<or> validateRequest schema req = Some (Respond 400 (MessageErrors ValidationFailed))"
  by (simp add: validateRequest_def)

subsection \<open>The store's counter stays above every key\<close>

lemma MemStorage_ids_below: "ids_below MemStorage"
  by (simp add: ids_below_def MemStorage_def)

lemma ids_below_fresh: "ids_below s \<Longrightarrow> userId s \<notin> fst ` set (users s)"
  by (auto simp add: ids_below_def list_all_iff)

lemma createUser_ids_below: "ids_below s \<Longrightarrow> ids_below (fst (createUser t candidate s))"
  by (auto simp add: ids_below_def list_all_iff createUser_def Let_def dom_update)

lemma updateUserProfile_ids_below:
  "ids_below s \<Longrightarrow> ids_below (fst (updateUserProfile ident profile s))"
  by (simp add: ids_below_def updateUserProfile_def Let_def update_present_keys
      split: option.splits)

subsection \<open>Account creation\<close>

lemma createUser_role:
  "snd (createUser t candidate s) ''role'' = Some (js_or (candidate ''role'') (JStr ''user''))"
  by (simp add: createUser_def Let_def)

lemma createUser_stored:
  "getUser (fst (createUser t candidate s)) (userId s) = Some (snd (createUser t candidate s))"
  by (simp add: createUser_def Let_def getUser_def update_conv')

lemma createUser_fresh_append:
  assumes "ids_below s"
  shows "users (fst (createUser t candidate s)) =
           users s @ [(userId s, snd (createUser t candidate s))]"
  using ids_below_fresh [OF assms] by (simp add: createUser_def Let_def update_fresh)

lemma post_register_fresh:
  assumes "getUserByUsername s (req_body req ''username'') = None"
    and "hashPassword e (req_body req ''password'') = Some digest"
  shows "fst (post_register e s req) =
           fst (createUser (clock e) ((req_body req)(''password'' \<mapsto> JStr digest)) s)"
  using assms by (simp add: post_register_def split: prod.splits)

subsection \<open>The counter invariant holds in every reachable store\<close>

lemma post_register_ids_below:
  assumes "ids_below s"
  shows "ids_below (fst (post_register e s req))"
proof (cases "getUserByUsername s (req_body req ''username'')")
  case (Some existing)
  then show ?thesis
    using assms by (simp add: post_register_def)
next
  case None
  show ?thesis
  proof (cases "hashPassword e (req_body req ''password'')")
    case None
    then show ?thesis
      using assms \<open>getUserByUsername s (req_body req ''username'') = None\<close>
      by (simp add: post_register_def)
  next
    case (Some digest)
    then show ?thesis
      using assms \<open>getUserByUsername s (req_body req ''username'') = None\<close>
      by (simp add: post_register_fresh createUser_ids_below)
  qed
qed

lemma updateUserProfile_result_ids_below:
  "updateUserProfile ident profile s = (s', r) \<Longrightarrow> ids_below s \<Longrightarrow> ids_below s'"
  using updateUserProfile_ids_below [of s ident profile] by simp

lemma put_users_profile_ids_below:
  assumes "ids_below s"
  shows "ids_below (fst (put_users_profile s req))"
  using assms
  by (auto simp add: put_users_profile_def put_users_profile_handler_def
      split: option.splits prod.splits jsval.splits intro: updateUserProfile_result_ids_below)

lemma post_news_users:
  "users (fst (post_news e s req)) = users s \<and> userId (fst (post_news e s req)) = userId s"
  by (simp add: post_news_def post_news_handler_def createNews_def Let_def
      split: option.splits prod.splits)

lemma put_news_users:
  "users (fst (put_news e s req)) = users s \<and> userId (fst (put_news e s req)) = userId s"
  by (simp add: put_news_def put_news_handler_def updateNews_def Let_def
      split: option.splits prod.splits)

lemma delete_news_users:
  "users (fst (delete_news s req)) = users s \<and> userId (fst (delete_news s req)) = userId s"
  by (simp add: delete_news_def delete_news_handler_def deleteNews_def
      split: option.splits prod.splits bool.splits)

lemma post_projects_users:
  "users (fst (post_projects e s req)) = users s
   \<and> userId (fst (post_projects e s req)) = userId s"
  by (simp add: post_projects_def post_projects_handler_def createProject_def Let_def
      split: option.splits prod.splits)

lemma put_projects_users:
  "users (fst (put_projects e s req)) = users s \<and> userId (fst (put_projects e s req)) = userId s"
  by (simp add: put_projects_def put_projects_handler_def updateProject_def Let_def
      split: option.splits prod.splits)

lemma delete_projects_users:
  "users (fst (delete_projects s req)) = users s
   \<and> userId (fst (delete_projects s req)) = userId s"
  by (simp add: delete_projects_def delete_projects_handler_def deleteProject_def
      split: option.splits prod.splits bool.splits)

lemma reachable_ids_below: "reachable s \<Longrightarrow> ids_below s"
proof (induction rule: reachable.induct)
  case initial
  show ?case by (rule MemStorage_ids_below)
next
  case (registered s e req)
  then show ?case by (simp add: post_register_ids_below)
next
  case (profile_updated s req)
  then show ?case by (simp add: put_users_profile_ids_below)
next
  case (news_created s e req)
  then show ?case using post_news_users [of e s req] by (simp add: ids_below_def)
next
  case (news_updated s e req)
  then show ?case using put_news_users [of e s req] by (simp add: ids_below_def)
next
  case (news_deleted s req)
  then show ?case using delete_news_users [of s req] by (simp add: ids_below_def)
next
  case (project_created s e req)
  then show ?case using post_projects_users [of e s req] by (simp add: ids_below_def)
next
  case (project_updated s e req)
  then show ?case using put_projects_users [of e s req] by (simp add: ids_below_def)
next
  case (project_deleted s req)
  then show ?case using delete_projects_users [of s req] by (simp add: ids_below_def)
qed

subsection \<open>No endpoint serialises the password\<close>

lemma get_users_no_password: "\<not> has_password (snd (get_users s req))"
  using isAdmin_cases [of req]
  by (auto simp add: get_users_def list_ex_iff safeUser_no_password)

lemma put_users_profile_handler_no_password:
  "\<not> has_password (snd (put_users_profile_handler s req))"
  by (simp add: put_users_profile_handler_def updateUserProfile_def Let_def safeUser_no_password
      split: option.splits jsval.splits prod.splits)

lemma put_users_profile_no_password: "\<not> has_password (snd (put_users_profile s req))"
  using isAuthenticated_cases [of req] validateRequest_cases [of updateUserProfileSchema req]
  by (auto simp add: put_users_profile_def put_users_profile_handler_no_password)

lemma post_register_no_password: "\<not> has_password (snd (post_register e s req))"
  by (simp add: post_register_def createUser_def Let_def safeUser_no_password
      split: option.splits prod.splits)

lemma post_login_no_password: "\<not> has_password (post_login e s username password)"
  by (simp add: post_login_def safeUser_no_password split: verified.splits option.splits)

subsection \<open>Failed logins that do answer alike\<close>

lemma post_login_unknown:
  assumes "getUserByUsername s username = None"
  shows "post_login e s username password = Respond 401 (Message BadCredentials)"
  using assms by (simp add: post_login_def authenticate_local_def LocalStrategy_def)

lemma post_login_compares_false:
  assumes "getUserByUsername s username = Some account"
    and "comparePasswords e password (account ''password'') = Some False"
  shows "post_login e s username password = Respond 401 (Message BadCredentials)"
  using assms by (simp add: post_login_def authenticate_local_def LocalStrategy_def)

lemma post_login_compare_rejects:
  assumes "getUserByUsername s username = Some account"
    and "truthy username" and "truthy password"
    and "comparePasswords e password (account ''password'') = None"
  shows "post_login e s username password = NextError"
  using assms by (simp add: post_login_def authenticate_local_def LocalStrategy_def)

lemma get_user_no_password: "\<not> has_password (get_user req)"
  by (simp add: get_user_def safeUser_no_password split: option.splits)


subsection \<open>Facts about the example data\<close>

lemma request_of_simps:
  "req_user (request_of account b ident) = account"
  "req_body (request_of account b ident) = b"
  "req_id (request_of account b ident) = ident"
  by (simp_all add: request_of_def)

lemma example_accounts:
  "alice ''id'' = Some (JNum 1)" "alice ''role'' = Some (JStr ''admin'')"
  "bob ''id'' = Some (JNum 2)" "bob ''role'' = Some (JStr ''user'')"
  "carol ''id'' = Some (JNum 3)" "carol ''role'' = Some (JStr ''user'')"
  "bob ''password'' = Some (JStr ''#secret2'')"
  by (simp_all add: alice_def bob_def carol_def)

lemma example_items:
  "getNewsById example_store 1 = Some bobs_news"
  "getProjectById example_store 1 = Some bobs_project"
  "bobs_news ''userId'' = Some (JNum 2)"
  "bobs_project ''userId'' = Some (JNum 2)"
  by (simp_all add: getNewsById_def getProjectById_def example_store_def bobs_news_def
      bobs_project_def)

lemma example_store_lookup:
  "getUserByUsername example_store (Some (JStr ''bob'')) = Some bob"
  "getUserByUsername example_store (Some (JStr ''nobody'')) = None"
  "getUserByUsername example_store (Some (JStr ''dave'')) = None"
  by (simp_all add: getUserByUsername_def example_store_def alice_def bob_def carol_def)

lemma example_store_ids_below: "ids_below example_store"
  by (simp add: ids_below_def example_store_def)

subsection \<open>Creating news and projects\<close>

lemma createNews_stored:
  "getNewsById (fst (createNews t item s)) (newsId s) = Some (snd (createNews t item s))"
  by (simp add: createNews_def Let_def getNewsById_def update_conv')

lemma createProject_stored:
  "getProjectById (fst (createProject t item s)) (projectId s) = Some (snd (createProject t item s))"
  by (simp add: createProject_def Let_def getProjectById_def update_conv')

lemma createNews_userId: "snd (createNews t item s) ''userId'' = item ''userId''"
  by (simp add: createNews_def Let_def)

lemma createProject_userId: "snd (createProject t item s) ''userId'' = item ''userId''"
  by (simp add: createProject_def Let_def)

lemma post_news_created:
  assumes "req_user req = Some account" and "isAdmin req = None"
    and "insertNewsSchema e (req_body req)"
  shows "post_news e s req =
     (fst (createNews (clock e) ((req_body req)(''userId'' := account ''id'')) s),
      Respond 201 (Json (snd (createNews (clock e) ((req_body req)(''userId'' := account ''id'')) s))))"
  using assms
  by (simp add: post_news_def validateRequest_def post_news_handler_def split: prod.splits)

lemma post_projects_created:
  assumes "req_user req = Some account" and "isAdmin req = None"
    and "insertProjectSchema e (req_body req)"
  shows "post_projects e s req =
     (fst (createProject (clock e) ((req_body req)(''userId'' := account ''id'')) s),
      Respond 201 (Json (snd (createProject (clock e) ((req_body req)(''userId'' := account ''id'')) s))))"
  using assms
  by (simp add: post_projects_def validateRequest_def post_projects_handler_def split: prod.splits)

lemma post_news_201:
  assumes "post_news e s req = (s', Respond 201 p)"
  shows "isAdmin req = None \<and> insertNewsSchema e (req_body req)"
  using assms isAdmin_cases [of req]
  by (auto simp add: post_news_def validateRequest_def split: option.splits if_splits)

lemma post_projects_201:
  assumes "post_projects e s req = (s', Respond 201 p)"
  shows "isAdmin req = None \<and> insertProjectSchema e (req_body req)"
  using assms isAdmin_cases [of req]
  by (auto simp add: post_projects_def validateRequest_def split: option.splits if_splits)

lemma same_off_userId:
  assumes "\<forall>k. k \<noteq> ''userId'' \<longrightarrow> b1 k = b2 k"
  shows "b1(''userId'' := v) = b2(''userId'' := v)"
  using assms by (auto simp add: fun_eq_iff)

section \<open>Registration: where the role comes from\<close>

text \<open>
  Claim C1, as amended. The claim says that the stored role never follows the role field
  of the request. The server has no administrator-elevation path: \<open>createUser\<close> stores
  \<open>role || "user"\<close>. For every registration with a free user name and a password that
  hashes, the account stored under the next identifier has the role field of the request
  body when that field is truthy, and \<open>user\<close> otherwise; no other field of the body (an
  admin code included) has any influence on it.
\<close>

theorem registration_role_from_request:
  assumes "getUserByUsername s (req_body req ''username'') = None"
    and "hashPassword e (req_body req ''password'') = Some digest"
  shows "\<exists>account. getUser (fst (post_register e s req)) (userId s) = Some account
           \<and> account ''role'' = Some (js_or (req_body req ''role'') (JStr ''user''))"
  using assms createUser_role [of "clock e" "(req_body req)(''password'' \<mapsto> JStr digest)" s]
  by (simp add: post_register_fresh createUser_stored)

theorem registration_role_witness:
  "getUserByUsername MemStorage (Some (JStr ''eve'')) = None
   \<and> hashPassword example_env (Some (JStr ''secret1'')) = Some ''#secret1''
   \<and> (\<exists>account.
         getUser (fst (post_register example_env MemStorage
           (request_of None [''username'' \<mapsto> JStr ''eve'', ''password'' \<mapsto> JStr ''secret1'',
              ''role'' \<mapsto> JStr ''admin'', ''adminCode'' \<mapsto> JStr ''guess''] None))) 1 = Some account
       \<and> account ''role'' = Some (JStr ''admin''))"
proof -
  have h1: "getUserByUsername MemStorage (Some (JStr ''eve'')) = None"
    by (simp add: getUserByUsername_def MemStorage_def)
  have h2: "hashPassword example_env (Some (JStr ''secret1'')) = Some ''#secret1''"
    by (simp add: hashPassword_def example_env_def)
  have u: "userId MemStorage = 1"
    by (simp add: MemStorage_def)
  show ?thesis
    using h1 h2 u registration_role_from_request [of MemStorage
      "request_of None [''username'' \<mapsto> JStr ''eve'', ''password'' \<mapsto> JStr ''secret1'',
         ''role'' \<mapsto> JStr ''admin'', ''adminCode'' \<mapsto> JStr ''guess''] None"
      example_env "''#secret1''"]
    by (simp add: request_of_def)
qed

text \<open>
  Claim C1 as stated fails: two registrations on the empty store that differ only in the
  role field store the roles \<open>admin\<close> and \<open>user\<close>.
\<close>

theorem registration_role_counterexample:
  "map_option (\<lambda>account. account ''role'')
     (getUser (fst (post_register example_env MemStorage
        (request_of None [''username'' \<mapsto> JStr ''eve'', ''password'' \<mapsto> JStr ''secret1'',
           ''role'' \<mapsto> JStr ''admin''] None))) 1) = Some (Some (JStr ''admin''))
   \<and> map_option (\<lambda>account. account ''role'')
     (getUser (fst (post_register example_env MemStorage
        (request_of None [''username'' \<mapsto> JStr ''eve'', ''password'' \<mapsto> JStr ''secret1'',
           ''role'' \<mapsto> JStr ''user''] None))) 1) = Some (Some (JStr ''user''))"
  by (simp add: post_register_def example_env_def MemStorage_def request_of_def
      getUserByUsername_def hashPassword_def createUser_def Let_def getUser_def)

section \<open>Registration: user name conflicts\<close>

text \<open>
  Claim C2, as amended. \<open>createUser\<close> itself checks nothing: it always stores the
  candidate under the next identifier and advances the counter. The conflict is detected
  by the registration endpoint, before \<open>createUser\<close> is called: when an account with the
  user name of the request exists, the endpoint answers 400 (user name taken) and the
  store is unchanged. When the user name is free and the password hashes, the account is
  appended under the counter's value, which no stored account has, with the hashed
  password, and with the role \<open>user\<close> when the request gives no role. The hypothesis
  \<open>ids_below\<close> holds in every reachable store (\<open>reachable_ids_below\<close>).
\<close>

theorem registration_conflict_checked_by_endpoint:
  "(getUserByUsername s (req_body req ''username'') = Some existing \<longrightarrow>
      post_register e s req = (s, Respond 400 (Message UsernameTaken)))
   \<and> (getUserByUsername s (req_body req ''username'') = None
       \<and> hashPassword e (req_body req ''password'') = Some digest \<and> ids_below s \<longrightarrow>
      (\<exists>s' account.
          createUser (clock e) ((req_body req)(''password'' \<mapsto> JStr digest)) s = (s', account)
        \<and> fst (post_register e s req) = s'
        \<and> userId s \<notin> fst ` set (users s)
        \<and> users s' = users s @ [(userId s, account)]
        \<and> account ''id'' = Some (JNum (userId s))
        \<and> account ''username'' = req_body req ''username''
        \<and> account ''password'' = Some (JStr digest)
        \<and> (req_body req ''role'' = None \<longrightarrow> account ''role'' = Some (JStr ''user''))
        \<and> userId s' = userId s + 1
        \<and> ids_below s'))
   \<and> userId (fst (createUser t candidate s)) = userId s + 1
   \<and> getUser (fst (createUser t candidate s)) (userId s) = Some (snd (createUser t candidate s))"
proof (intro conjI impI)
  assume "getUserByUsername s (req_body req ''username'') = Some existing"
  then show "post_register e s req = (s, Respond 400 (Message UsernameTaken))"
    by (simp add: post_register_def)
next
  let ?c = "(req_body req)(''password'' \<mapsto> JStr digest)"
  assume a: "getUserByUsername s (req_body req ''username'') = None
       \<and> hashPassword e (req_body req ''password'') = Some digest \<and> ids_below s"
  obtain s' account where c: "createUser (clock e) ?c s = (s', account)"
    by (cases "createUser (clock e) ?c s")
  have 1: "fst (post_register e s req) = s'"
    using a c post_register_fresh [of s req e digest] by simp
  have 2: "userId s \<notin> fst ` set (users s)"
    using a ids_below_fresh by blast
  have 3: "users s' = users s @ [(userId s, account)]"
    using a c createUser_fresh_append [of s "clock e" ?c] by simp
  have 4: "ids_below s'"
    using a c createUser_ids_below [of s "clock e" ?c] by simp
  have 5: "account = snd (createUser (clock e) ?c s)"
    using c by simp
  have 6: "account ''id'' = Some (JNum (userId s))"
    "account ''username'' = req_body req ''username''"
    "account ''password'' = Some (JStr digest)"
    "req_body req ''role'' = None \<longrightarrow> account ''role'' = Some (JStr ''user'')"
    unfolding 5 by (simp_all add: createUser_def Let_def restrict_map_def)
  have 7: "userId s' = userId s + 1"
    using c by (auto simp add: createUser_def Let_def)
  show "\<exists>s' account.
          createUser (clock e) ((req_body req)(''password'' \<mapsto> JStr digest)) s = (s', account)
        \<and> fst (post_register e s req) = s'
        \<and> userId s \<notin> fst ` set (users s)
        \<and> users s' = users s @ [(userId s, account)]
        \<and> account ''id'' = Some (JNum (userId s))
        \<and> account ''username'' = req_body req ''username''
        \<and> account ''password'' = Some (JStr digest)
        \<and> (req_body req ''role'' = None \<longrightarrow> account ''role'' = Some (JStr ''user''))
        \<and> userId s' = userId s + 1
        \<and> ids_below s'"
    using c 1 2 3 4 6 7 by simp
next
  show "userId (fst (createUser t candidate s)) = userId s + 1"
    by (simp add: createUser_def Let_def)
next
  show "getUser (fst (createUser t candidate s)) (userId s) = Some (snd (createUser t candidate s))"
    by (rule createUser_stored)
qed

theorem registration_conflict_witness:
  "getUserByUsername example_store (Some (JStr ''bob'')) = Some bob
   \<and> post_register example_env example_store
        (request_of None [''username'' \<mapsto> JStr ''bob'', ''password'' \<mapsto> JStr ''secret9''] None)
       = (example_store, Respond 400 (Message UsernameTaken))
   \<and> getUserByUsername example_store (Some (JStr ''dave'')) = None
   \<and> hashPassword example_env (Some (JStr ''secret4'')) = Some ''#secret4''
   \<and> ids_below example_store
   \<and> userId (fst (post_register example_env example_store
        (request_of None [''username'' \<mapsto> JStr ''dave'', ''password'' \<mapsto> JStr ''secret4''] None)))
       = 5
   \<and> map fst (users (fst (post_register example_env example_store
        (request_of None [''username'' \<mapsto> JStr ''dave'', ''password'' \<mapsto> JStr ''secret4''] None))))
       = [1, 2, 3, 4]"
proof -
  have h: "hashPassword example_env (Some (JStr ''secret4'')) = Some ''#secret4''"
    by (simp add: hashPassword_def example_env_def)
  have u: "userId example_store = 4" "map fst (users example_store) = [1, 2, 3]"
    by (simp_all add: example_store_def)
  have conflict: "post_register example_env example_store
        (request_of None [''username'' \<mapsto> JStr ''bob'', ''password'' \<mapsto> JStr ''secret9''] None)
       = (example_store, Respond 400 (Message UsernameTaken))"
    using example_store_lookup(1) registration_conflict_checked_by_endpoint [of example_store
      "request_of None [''username'' \<mapsto> JStr ''bob'', ''password'' \<mapsto> JStr ''secret9''] None"
      bob example_env "''#secret9''" 7 Map.empty]
    by (simp add: request_of_def)
  have fresh: "userId (fst (post_register example_env example_store
        (request_of None [''username'' \<mapsto> JStr ''dave'', ''password'' \<mapsto> JStr ''secret4''] None)))
       = 5
   \<and> map fst (users (fst (post_register example_env example_store
        (request_of None [''username'' \<mapsto> JStr ''dave'', ''password'' \<mapsto> JStr ''secret4''] None))))
       = [1, 2, 3, 4]"
    using example_store_lookup(3) h u example_store_ids_below
      registration_conflict_checked_by_endpoint [of example_store
      "request_of None [''username'' \<mapsto> JStr ''dave'', ''password'' \<mapsto> JStr ''secret4''] None"
      bob example_env "''#secret4''" 7 Map.empty]
    by (auto simp add: request_of_def)
  show ?thesis
    using example_store_lookup h example_store_ids_below conflict fresh by simp
qed

text \<open>
  Claim C2 as stated fails: on a store that has an account named \<open>bob\<close>, \<open>createUser\<close>
  with a candidate named \<open>bob\<close> does not fail; the store changes and holds two accounts
  of that name.
\<close>

theorem createUser_duplicate_counterexample:
  "getUserByUsername example_store (Some (JStr ''bob'')) \<noteq> None
   \<and> fst (createUser 7 [''username'' \<mapsto> JStr ''bob'', ''password'' \<mapsto> JStr ''#x''] example_store)
       \<noteq> example_store
   \<and> usernames (fst (createUser 7 [''username'' \<mapsto> JStr ''bob'', ''password'' \<mapsto> JStr ''#x'']
        example_store))
       = [Some (JStr ''alice''), Some (JStr ''bob''), Some (JStr ''carol''), Some (JStr ''bob'')]"
proof (intro conjI)
  show "getUserByUsername example_store (Some (JStr ''bob'')) \<noteq> None"
    by (simp add: getUserByUsername_def example_store_def alice_def bob_def)
  have "userId (fst (createUser 7 [''username'' \<mapsto> JStr ''bob'', ''password'' \<mapsto> JStr ''#x'']
          example_store)) \<noteq> userId example_store"
    by (simp add: createUser_def Let_def)
  then show "fst (createUser 7 [''username'' \<mapsto> JStr ''bob'', ''password'' \<mapsto> JStr ''#x'']
          example_store) \<noteq> example_store"
    by auto
  show "usernames (fst (createUser 7 [''username'' \<mapsto> JStr ''bob'', ''password'' \<mapsto> JStr ''#x'']
        example_store))
       = [Some (JStr ''alice''), Some (JStr ''bob''), Some (JStr ''carol''), Some (JStr ''bob'')]"
    by (simp add: usernames_def getAllUsers_def createUser_def Let_def example_store_def
        alice_def bob_def carol_def restrict_map_def)
qed

section \<open>User names after a profile update\<close>

text \<open>
  Claim C3 does not hold on the code. Starting from the empty store, \<open>alice\<close> and \<open>bob\<close>
  register (the user names are distinct); then \<open>bob\<close> sends a profile update with the
  user name \<open>alice\<close>. The schema accepts it, nothing compares it with the stored names,
  the endpoint answers 200, and two accounts are named \<open>alice\<close>.
\<close>

theorem profile_update_duplicates_username:
  "usernames two_accounts = [Some (JStr ''alice''), Some (JStr ''bob'')]
   \<and> status (snd (put_users_profile two_accounts rename_to_alice)) = Some 200
   \<and> usernames (fst (put_users_profile two_accounts rename_to_alice))
       = [Some (JStr ''alice''), Some (JStr ''alice'')]"
  by (simp add: usernames_def getAllUsers_def two_accounts_def rename_to_alice_def
      register_alice_def register_bob_def request_of_def post_register_def example_env_def
      MemStorage_def getUserByUsername_def hashPassword_def createUser_def Let_def getUser_def
      put_users_profile_def put_users_profile_handler_def isAuthenticated_def
      validateRequest_def updateUserProfileSchema_def updateUserProfile_def restrict_map_def
      map_add_def)

section \<open>Responses carry no password\<close>

text \<open>
  Claim C4. Whatever the store, the request and the environment, the response of the
  registration, login, current-identity, users-list and profile-update endpoints has no
  \<open>password\<close> property, neither in its object nor in any object of its list. Where a
  handler hands an error to the framework instead (\<open>NextError\<close>), it sends no payload of
  its own.
\<close>

theorem responses_never_carry_password:
  "\<not> has_password (snd (post_register e s req))
   \<and> \<not> has_password (post_login e s username password)
   \<and> \<not> has_password (get_user req)
   \<and> \<not> has_password (snd (get_users s req))
   \<and> \<not> has_password (snd (put_users_profile s req))"
  by (simp add: post_register_no_password post_login_no_password get_user_no_password
      get_users_no_password put_users_profile_no_password)

section \<open>Owner or administrator\<close>

text \<open>
  Claim C5. For an authenticated caller and an existing news item or project, the update
  and the delete request go through exactly when the caller's role is \<open>admin\<close> or the
  caller's id is strictly equal to the \<open>userId\<close> of the resource: then the update answers
  200 with the merged item and the delete answers 204; otherwise both answer 403 and the
  store is unchanged.
\<close>

theorem owner_or_admin_guard:
  assumes "req_user req = Some account"
    and "req_id req = Some ident"
  shows "(getNewsById s ident = Some newsItem \<longrightarrow>
           (if account ''role'' = Some (JStr ''admin'') \<or> strict_eq (newsItem ''userId'') (account ''id'')
            then put_news e s req =
                   (fst (updateNews (clock e) ident (req_body req) s),
                    Respond 200 (Json ((newsItem ++ req_body req)(''updatedAt'' \<mapsto> JDate (clock e)))))
               \<and> delete_news s req = (fst (deleteNews ident s), Respond 204 NoBody)
            else put_news e s req = (s, Respond 403 (Message NewsEditForbidden))
               \<and> delete_news s req = (s, Respond 403 (Message NewsDeleteForbidden))))
       \<and> (getProjectById s ident = Some project \<longrightarrow>
           (if account ''role'' = Some (JStr ''admin'') \<or> strict_eq (project ''userId'') (account ''id'')
            then put_projects e s req =
                   (fst (updateProject (clock e) ident (req_body req) s),
                    Respond 200 (Json ((project ++ req_body req)(''updatedAt'' \<mapsto> JDate (clock e)))))
               \<and> delete_projects s req = (fst (deleteProject ident s), Respond 204 NoBody)
            else put_projects e s req = (s, Respond 403 (Message ProjectEditForbidden))
               \<and> delete_projects s req = (s, Respond 403 (Message ProjectDeleteForbidden))))"
proof -
  have auth: "isAuthenticated req = None"
    using assms(1) by (simp add: isAuthenticated_def)
  show ?thesis
  proof (intro conjI impI)
    assume n: "getNewsById s ident = Some newsItem"
    then have m: "map_of (newsItems s) ident = Some newsItem"
      by (simp add: getNewsById_def)
    show "if account ''role'' = Some (JStr ''admin'') \<or> strict_eq (newsItem ''userId'') (account ''id'')
            then put_news e s req =
                   (fst (updateNews (clock e) ident (req_body req) s),
                    Respond 200 (Json ((newsItem ++ req_body req)(''updatedAt'' \<mapsto> JDate (clock e)))))
               \<and> delete_news s req = (fst (deleteNews ident s), Respond 204 NoBody)
            else put_news e s req = (s, Respond 403 (Message NewsEditForbidden))
               \<and> delete_news s req = (s, Respond 403 (Message NewsDeleteForbidden))"
      using assms auth n m
      by (simp add: put_news_def put_news_handler_def delete_news_def delete_news_handler_def
          updateNews_def deleteNews_def Let_def)
  next
    assume n: "getProjectById s ident = Some project"
    then have m: "map_of (projectItems s) ident = Some project"
      by (simp add: getProjectById_def)
    show "if account ''role'' = Some (JStr ''admin'') \<or> strict_eq (project ''userId'') (account ''id'')
            then put_projects e s req =
                   (fst (updateProject (clock e) ident (req_body req) s),
                    Respond 200 (Json ((project ++ req_body req)(''updatedAt'' \<mapsto> JDate (clock e)))))
               \<and> delete_projects s req = (fst (deleteProject ident s), Respond 204 NoBody)
            else put_projects e s req = (s, Respond 403 (Message ProjectEditForbidden))
               \<and> delete_projects s req = (s, Respond 403 (Message ProjectDeleteForbidden))"
      using assms auth n m
      by (simp add: put_projects_def put_projects_handler_def delete_projects_def
          delete_projects_handler_def updateProject_def deleteProject_def Let_def)
  qed
qed

theorem owner_or_admin_guard_witness:
  "status (snd (put_news example_env example_store (request_of (Some bob) Map.empty (Some 1))))
     = Some 200
   \<and> status (snd (delete_projects example_store (request_of (Some bob) Map.empty (Some 1))))
     = Some 204
   \<and> put_news example_env example_store (request_of (Some carol) Map.empty (Some 1))
     = (example_store, Respond 403 (Message NewsEditForbidden))
   \<and> delete_news example_store (request_of (Some carol) Map.empty (Some 1))
     = (example_store, Respond 403 (Message NewsDeleteForbidden))
   \<and> put_projects example_env example_store (request_of (Some carol) Map.empty (Some 1))
     = (example_store, Respond 403 (Message ProjectEditForbidden))
   \<and> delete_projects example_store (request_of (Some carol) Map.empty (Some 1))
     = (example_store, Respond 403 (Message ProjectDeleteForbidden))
   \<and> status (snd (delete_news example_store (request_of (Some alice) Map.empty (Some 1))))
     = Some 204
   \<and> status (snd (put_projects example_env example_store
        (request_of (Some alice) Map.empty (Some 1)))) = Some 200"
proof -
  note owner = owner_or_admin_guard [of "request_of (Some bob) Map.empty (Some 1)" bob 1
      example_store bobs_news example_env bobs_project]
  note other = owner_or_admin_guard [of "request_of (Some carol) Map.empty (Some 1)" carol 1
      example_store bobs_news example_env bobs_project]
  note admin = owner_or_admin_guard [of "request_of (Some alice) Map.empty (Some 1)" alice 1
      example_store bobs_news example_env bobs_project]
  show ?thesis
    using owner other admin
    by (simp add: request_of_simps example_items example_accounts)
qed

section \<open>Failed logins\<close>

text \<open>
  Claim C6 does not hold on the code. The verify function answers \<open>done(null, false)\<close>
  for an unknown user name and for a password that compares false, and both get the 401
  with the one message (\<open>post_login_unknown\<close>, \<open>post_login_compares_false\<close>). But the
  comparison is reached only for a known user name, and when it rejects, the \<open>catch\<close>
  branch calls \<open>done(err)\<close> and the route hands the error to the framework
  (\<open>post_login_compare_rejects\<close>). \<open>bcryptjs\<close> rejects a password that is not a string,
  as \<open>example_env\<close> does. With the wrong password \<open>123\<close>, a number, the unknown name
  \<open>nobody\<close> gets the 401 and the known name \<open>bob\<close> gets the error response: the two failed
  attempts are told apart.
\<close>

theorem login_failures_distinguished:
  "post_login example_env example_store (Some (JStr ''nobody'')) (Some (JNum 123))
     = Respond 401 (Message BadCredentials)
   \<and> post_login example_env example_store (Some (JStr ''bob'')) (Some (JNum 123)) = NextError"
proof -
  have c: "comparePasswords example_env (Some (JNum 123)) (bob ''password'') = None"
    by (simp add: comparePasswords_def example_env_def)
  show ?thesis
    using c example_store_lookup
    by (simp add: post_login_unknown post_login_compare_rejects)
qed

section \<open>The frame of a profile update\<close>

text \<open>
  Claim C7. For a stored account and a patch whose only properties are among
  \<open>username\<close>, \<open>avatar\<close> and \<open>bio\<close>, \<open>updateUserProfile\<close> stores and returns the account
  with exactly the given properties replaced: every property of the patch has the patch's
  value, every other property (the role and the password among them) keeps its value, the
  other accounts, the order of the map and the rest of the store are unchanged. For an
  unknown id it returns nothing and the store is unchanged.
\<close>

theorem updateUserProfile_frame:
  "(map_of (users s) ident = Some account \<and> dom profile \<subseteq> {''username'', ''avatar'', ''bio''} \<longrightarrow>
      (\<exists>s' updatedUser. updateUserProfile ident profile s = (s', Some updatedUser)
         \<and> map_of (users s') ident = Some updatedUser
         \<and> (\<forall>k v. profile k = Some v \<longrightarrow> updatedUser k = Some v)
         \<and> (\<forall>k. profile k = None \<longrightarrow> updatedUser k = account k)
         \<and> updatedUser ''role'' = account ''role''
         \<and> updatedUser ''password'' = account ''password''
         \<and> (\<forall>other. other \<noteq> ident \<longrightarrow> map_of (users s') other = map_of (users s) other)
         \<and> map fst (users s') = map fst (users s)
         \<and> s' = s\<lparr>users := users s'\<rparr>))
   \<and> (map_of (users s) ident = None \<longrightarrow> updateUserProfile ident profile s = (s, None))"
proof (intro conjI impI)
  assume a: "map_of (users s) ident = Some account \<and> dom profile \<subseteq> {''username'', ''avatar'', ''bio''}"
  then have r: "profile ''role'' = None" and p: "profile ''password'' = None"
    by (auto simp add: subset_iff dom_def)
  show "\<exists>s' updatedUser. updateUserProfile ident profile s = (s', Some updatedUser)
         \<and> map_of (users s') ident = Some updatedUser
         \<and> (\<forall>k v. profile k = Some v \<longrightarrow> updatedUser k = Some v)
         \<and> (\<forall>k. profile k = None \<longrightarrow> updatedUser k = account k)
         \<and> updatedUser ''role'' = account ''role''
         \<and> updatedUser ''password'' = account ''password''
         \<and> (\<forall>other. other \<noteq> ident \<longrightarrow> map_of (users s') other = map_of (users s) other)
         \<and> map fst (users s') = map fst (users s)
         \<and> s' = s\<lparr>users := users s'\<rparr>"
    using a r p update_present_keys [of "users s" ident account "account ++ profile"]
    by (simp add: updateUserProfile_def Let_def update_conv' map_add_def)
next
  assume "map_of (users s) ident = None"
  then show "updateUserProfile ident profile s = (s, None)"
    by (simp add: updateUserProfile_def)
qed

theorem updateUserProfile_frame_witness:
  "map_of (users example_store) 2 = Some bob
   \<and> dom [''bio'' \<mapsto> JStr ''hi''] \<subseteq> {''username'', ''avatar'', ''bio''}
   \<and> (\<exists>s' updatedUser.
         updateUserProfile 2 [''bio'' \<mapsto> JStr ''hi''] example_store = (s', Some updatedUser)
       \<and> updatedUser ''bio'' = Some (JStr ''hi'')
       \<and> updatedUser ''role'' = Some (JStr ''user'')
       \<and> updatedUser ''password'' = Some (JStr ''#secret2''))
   \<and> map_of (users example_store) 9 = None
   \<and> updateUserProfile 9 [''bio'' \<mapsto> JStr ''hi''] example_store = (example_store, None)"
proof -
  have h: "map_of (users example_store) 2 = Some bob" "map_of (users example_store) 9 = None"
    by (simp_all add: example_store_def)
  have d: "dom [''bio'' \<mapsto> JStr ''hi''] \<subseteq> {''username'', ''avatar'', ''bio''}"
    by simp
  have known: "\<exists>s' updatedUser.
         updateUserProfile 2 [''bio'' \<mapsto> JStr ''hi''] example_store = (s', Some updatedUser)
       \<and> updatedUser ''bio'' = Some (JStr ''hi'')
       \<and> updatedUser ''role'' = Some (JStr ''user'')
       \<and> updatedUser ''password'' = Some (JStr ''#secret2'')"
    using h d updateUserProfile_frame [of example_store 2 bob "[''bio'' \<mapsto> JStr ''hi'']"]
    by (auto simp add: example_accounts)
  have unknown: "updateUserProfile 9 [''bio'' \<mapsto> JStr ''hi''] example_store = (example_store, None)"
    using h updateUserProfile_frame [of example_store 9 bob "[''bio'' \<mapsto> JStr ''hi'']"]
    by simp
  show ?thesis
    using h d known unknown by simp
qed

section \<open>The administrator gate\<close>

text \<open>
  Claim C9. \<open>isAdmin\<close> checks authentication first: an anonymous caller gets 401, on the
  middleware and on the routes behind it (the users list, news creation, project
  creation), with the store unchanged. A 403 from the gate or from one of these routes
  means that the caller is authenticated and the role is not \<open>admin\<close>, and every such
  caller gets the 403.
\<close>

theorem admin_gate_authentication_first:
  "(req_user req = None \<longrightarrow>
       isAdmin req = Some (Respond 401 (Message AuthRequired))
     \<and> get_users s req = (s, Respond 401 (Message AuthRequired))
     \<and> post_news e s req = (s, Respond 401 (Message AuthRequired))
     \<and> post_projects e s req = (s, Respond 401 (Message AuthRequired)))
   \<and> ((\<exists>p. isAdmin req = Some (Respond 403 p))
       \<or> status (snd (get_users s req)) = Some 403
       \<or> status (snd (post_news e s req)) = Some 403
       \<or> status (snd (post_projects e s req)) = Some 403 \<longrightarrow>
       (\<exists>account. req_user req = Some account \<and> account ''role'' \<noteq> Some (JStr ''admin'')))
   \<and> (\<forall>account. req_user req = Some account \<and> account ''role'' \<noteq> Some (JStr ''admin'') \<longrightarrow>
         isAdmin req = Some (Respond 403 (Message AdminRequired))
       \<and> get_users s req = (s, Respond 403 (Message AdminRequired))
       \<and> post_news e s req = (s, Respond 403 (Message AdminRequired))
       \<and> post_projects e s req = (s, Respond 403 (Message AdminRequired)))"
proof -
  have anonymous: "isAdmin req = Some (Respond 401 (Message AuthRequired))
     \<and> get_users s req = (s, Respond 401 (Message AuthRequired))
     \<and> post_news e s req = (s, Respond 401 (Message AuthRequired))
     \<and> post_projects e s req = (s, Respond 401 (Message AuthRequired))"
    if "req_user req = None"
  proof -
    have "isAdmin req = Some (Respond 401 (Message AuthRequired))"
      using that by (simp add: isAdmin_def)
    then show ?thesis
      by (simp add: get_users_def post_news_def post_projects_def)
  qed
  have forbidden: "\<exists>account. req_user req = Some account \<and> account ''role'' \<noteq> Some (JStr ''admin'')"
    if a: "(\<exists>p. isAdmin req = Some (Respond 403 p))
       \<or> status (snd (get_users s req)) = Some 403
       \<or> status (snd (post_news e s req)) = Some 403
       \<or> status (snd (post_projects e s req)) = Some 403"
  proof -
    have "isAdmin req = Some (Respond 403 (Message AdminRequired))"
      using a isAdmin_cases [of req] validateRequest_cases [of "insertNewsSchema e" req]
        validateRequest_cases [of "insertProjectSchema e" req]
      by (auto simp add: get_users_def post_news_def post_projects_def post_news_handler_def
          post_projects_handler_def Let_def split: option.splits prod.splits)
    then show ?thesis
      by (auto simp add: isAdmin_def split: option.splits if_splits)
  qed
  have not_admin: "isAdmin req = Some (Respond 403 (Message AdminRequired))
       \<and> get_users s req = (s, Respond 403 (Message AdminRequired))
       \<and> post_news e s req = (s, Respond 403 (Message AdminRequired))
       \<and> post_projects e s req = (s, Respond 403 (Message AdminRequired))"
    if "req_user req = Some account \<and> account ''role'' \<noteq> Some (JStr ''admin'')" for account
  proof -
    have "isAdmin req = Some (Respond 403 (Message AdminRequired))"
      using that by (simp add: isAdmin_def)
    then show ?thesis
      by (simp add: get_users_def post_news_def post_projects_def)
  qed
  show ?thesis
    using anonymous forbidden not_admin by blast
qed

theorem admin_gate_witness:
  "isAdmin (request_of None Map.empty None) = Some (Respond 401 (Message AuthRequired))
   \<and> post_news example_env example_store (request_of None Map.empty None)
       = (example_store, Respond 401 (Message AuthRequired))
   \<and> isAdmin (request_of (Some carol) Map.empty None) = Some (Respond 403 (Message AdminRequired))
   \<and> get_users example_store (request_of (Some carol) Map.empty None)
       = (example_store, Respond 403 (Message AdminRequired))"
  using admin_gate_authentication_first [of "request_of None Map.empty None" example_store example_env]
    admin_gate_authentication_first [of "request_of (Some carol) Map.empty None" example_store
      example_env]
  by (simp add: request_of_simps example_accounts)

section \<open>The owner of a created resource\<close>

text \<open>
  Claim C10. Whenever news creation or project creation answers 201, the \<open>userId\<close> of the
  created and stored resource is the id of the caller's account, whatever \<open>userId\<close> the
  body gave; a second request of the same caller whose body differs at most in \<open>userId\<close>
  creates the same resource. Every caller who passes the gate and the schema gets the 201.
\<close>

theorem created_resource_owner_is_caller:
  assumes "req_user r1 = Some account" and "req_user r2 = Some account"
    and "\<forall>k. k \<noteq> ''userId'' \<longrightarrow> req_body r1 k = req_body r2 k"
  shows "(\<forall>s1 item1. post_news e s r1 = (s1, Respond 201 (Json item1)) \<longrightarrow>
            item1 ''userId'' = account ''id''
          \<and> getNewsById s1 (newsId s) = Some item1
          \<and> (\<forall>s2 item2. post_news e s r2 = (s2, Respond 201 (Json item2)) \<longrightarrow>
                item2 = item1 \<and> s2 = s1))
       \<and> (\<forall>s1 item1. post_projects e s r1 = (s1, Respond 201 (Json item1)) \<longrightarrow>
            item1 ''userId'' = account ''id''
          \<and> getProjectById s1 (projectId s) = Some item1
          \<and> (\<forall>s2 item2. post_projects e s r2 = (s2, Respond 201 (Json item2)) \<longrightarrow>
                item2 = item1 \<and> s2 = s1))
       \<and> (isAdmin r1 = None \<and> insertNewsSchema e (req_body r1) \<longrightarrow>
            (\<exists>s1 item1. post_news e s r1 = (s1, Respond 201 (Json item1))))
       \<and> (isAdmin r1 = None \<and> insertProjectSchema e (req_body r1) \<longrightarrow>
            (\<exists>s1 item1. post_projects e s r1 = (s1, Respond 201 (Json item1))))"
proof -
  let ?d1 = "(req_body r1)(''userId'' := account ''id'')"
  let ?d2 = "(req_body r2)(''userId'' := account ''id'')"
  have d: "?d2 = ?d1"
    using assms(3) same_off_userId [of "req_body r2" "req_body r1"] by simp
  have news: "item1 ''userId'' = account ''id'' \<and> getNewsById s1 (newsId s) = Some item1
      \<and> (\<forall>s2 item2. post_news e s r2 = (s2, Respond 201 (Json item2)) \<longrightarrow>
            item2 = item1 \<and> s2 = s1)"
    if c: "post_news e s r1 = (s1, Respond 201 (Json item1))" for s1 item1
  proof -
    have ok: "isAdmin r1 = None \<and> insertNewsSchema e (req_body r1)"
      using c by (rule post_news_201)
    have 1: "s1 = fst (createNews (clock e) ?d1 s)" "item1 = snd (createNews (clock e) ?d1 s)"
      using c ok post_news_created [of r1 account e s] assms(1) by simp_all
    have 2: "item2 = item1 \<and> s2 = s1"
      if c2: "post_news e s r2 = (s2, Respond 201 (Json item2))" for s2 item2
    proof -
      have "isAdmin r2 = None \<and> insertNewsSchema e (req_body r2)"
        using c2 by (rule post_news_201)
      then show ?thesis
        using c2 post_news_created [of r2 account e s] assms(2) d 1 by simp
    qed
    show ?thesis
      using 1 2 by (simp add: createNews_userId createNews_stored)
  qed
  have projects: "item1 ''userId'' = account ''id'' \<and> getProjectById s1 (projectId s) = Some item1
      \<and> (\<forall>s2 item2. post_projects e s r2 = (s2, Respond 201 (Json item2)) \<longrightarrow>
            item2 = item1 \<and> s2 = s1)"
    if c: "post_projects e s r1 = (s1, Respond 201 (Json item1))" for s1 item1
  proof -
    have ok: "isAdmin r1 = None \<and> insertProjectSchema e (req_body r1)"
      using c by (rule post_projects_201)
    have 1: "s1 = fst (createProject (clock e) ?d1 s)"
      "item1 = snd (createProject (clock e) ?d1 s)"
      using c ok post_projects_created [of r1 account e s] assms(1) by simp_all
    have 2: "item2 = item1 \<and> s2 = s1"
      if c2: "post_projects e s r2 = (s2, Respond 201 (Json item2))" for s2 item2
    proof -
      have "isAdmin r2 = None \<and> insertProjectSchema e (req_body r2)"
        using c2 by (rule post_projects_201)
      then show ?thesis
        using c2 post_projects_created [of r2 account e s] assms(2) d 1 by simp
    qed
    show ?thesis
      using 1 2 by (simp add: createProject_userId createProject_stored)
  qed
  have made_news: "\<exists>s1 item1. post_news e s r1 = (s1, Respond 201 (Json item1))"
    if "isAdmin r1 = None \<and> insertNewsSchema e (req_body r1)"
    using that post_news_created [of r1 account e s] assms(1) by simp
  have made_project: "\<exists>s1 item1. post_projects e s r1 = (s1, Respond 201 (Json item1))"
    if "isAdmin r1 = None \<and> insertProjectSchema e (req_body r1)"
    using that post_projects_created [of r1 account e s] assms(1) by simp
  show ?thesis
    using news projects made_news made_project by blast
qed

theorem created_resource_owner_witness:
  "status (snd (post_news example_env example_store
       (request_of (Some alice) [''title'' \<mapsto> JStr ''t'', ''content'' \<mapsto> JStr ''c'',
          ''userId'' \<mapsto> JNum 2] None))) = Some 201
   \<and> map_option (\<lambda>item. item ''userId'') (getNewsById (fst (post_news example_env example_store
       (request_of (Some alice) [''title'' \<mapsto> JStr ''t'', ''content'' \<mapsto> JStr ''c'',
          ''userId'' \<mapsto> JNum 2] None))) 2) = Some (Some (JNum 1))
   \<and> post_news example_env example_store
       (request_of (Some alice) [''title'' \<mapsto> JStr ''t'', ''content'' \<mapsto> JStr ''c'',
          ''userId'' \<mapsto> JNum 3] None)
     = post_news example_env example_store
       (request_of (Some alice) [''title'' \<mapsto> JStr ''t'', ''content'' \<mapsto> JStr ''c'',
          ''userId'' \<mapsto> JNum 2] None)"
proof -
  let ?r1 = "request_of (Some alice) [''title'' \<mapsto> JStr ''t'', ''content'' \<mapsto> JStr ''c'',
          ''userId'' \<mapsto> JNum 2] None"
  let ?r2 = "request_of (Some alice) [''title'' \<mapsto> JStr ''t'', ''content'' \<mapsto> JStr ''c'',
          ''userId'' \<mapsto> JNum 3] None"
  have a: "isAdmin ?r1 = None" "isAdmin ?r2 = None"
    by (simp_all add: isAdmin_def request_of_simps example_accounts)
  have v: "insertNewsSchema example_env (req_body ?r1)" "insertNewsSchema example_env (req_body ?r2)"
    by (simp_all add: example_env_def)
  have n: "newsId example_store = 2"
    by (simp add: example_store_def)
  have same: "\<forall>k. k \<noteq> ''userId'' \<longrightarrow> req_body ?r1 k = req_body ?r2 k"
    by (simp add: request_of_simps)
  note t1 = created_resource_owner_is_caller [of ?r1 alice ?r2 example_env example_store,
      OF request_of_simps(1) request_of_simps(1) same]
  note t2 = created_resource_owner_is_caller [of ?r2 alice ?r1 example_env example_store,
      OF request_of_simps(1) request_of_simps(1)]
  obtain s1 item1 where c1: "post_news example_env example_store ?r1 = (s1, Respond 201 (Json item1))"
    using t1 a v by blast
  obtain s2 item2 where c2: "post_news example_env example_store ?r2 = (s2, Respond 201 (Json item2))"
    using t2 a v same by auto
  have "item1 ''userId'' = alice ''id'' \<and> getNewsById s1 (newsId example_store) = Some item1
     \<and> item2 = item1 \<and> s2 = s1"
    using t1 c1 c2 by blast
  then show ?thesis
    using c1 c2 n by (simp add: example_accounts)
qed

end
